theory Spec2Isabelle
  imports Main
begin

section \<open>Data model (types/material.ts)\<close>

text \<open>
  JavaScript strings are modelled as \<^typ>\<open>string\<close>; a character outside ASCII is written as
  its UTF-8 bytes, so that \<open>===\<close> on strings is equality of the byte lists.
\<close>

datatype Status = nao_conferido | conferido_correto | conferido_outro_setor

record Conferencia =
  data :: string
  setorEncontrado :: string
  salaEncontrada :: string

text \<open>
  The records extend one another as the TypeScript object types include one another:
  \<open>MaterialForm\<close> is the type of the form state \<open>newMaterial\<close> of the page \<open>Materiais\<close>,
  \<open>MaterialData\<close> is \<open>Omit<Material, 'id' | 'qrCode' | 'dataCadastro'>\<close>, the argument type
  of \<open>addMaterial\<close>, and \<open>Material\<close> adds the three omitted fields. The optional field \<open>ultimaConferencia?\<close> is an
  option. The field \<open>id\<close> is named \<open>material_id\<close>, since \<open>id\<close> is the identity function of HOL.
\<close>

record MaterialForm =
  nome :: string
  bmp :: string
  setor :: string
  sala :: string
  responsavel :: string

record MaterialData = MaterialForm +
  status :: Status
  ultimaConferencia :: "Conferencia option"

record Material = MaterialData +
  material_id :: string
  qrCode :: string
  dataCadastro :: string

record Setor =
  setor_id :: string
  setor_nome :: string
  salas :: "string list"

text \<open>
  \<open>Partial<Material>\<close>: every field may be absent (\<open>None\<close>). For the optional field
  \<open>ultimaConferencia\<close> a present key may carry \<open>undefined\<close>, which is \<open>Some None\<close>.
\<close>

record MaterialUpdates =
  upd_id :: "string option"
  upd_nome :: "string option"
  upd_bmp :: "string option"
  upd_setor :: "string option"
  upd_sala :: "string option"
  upd_responsavel :: "string option"
  upd_qrCode :: "string option"
  upd_status :: "Status option"
  upd_ultimaConferencia :: "Conferencia option option"
  upd_dataCadastro :: "string option"

record MaterialsState =
  materials :: "Material list"
  setores :: "Setor list"
  loading :: bool

section \<open>The store (hooks/useMaterials.ts)\<close>

subsection \<open>Mock data\<close>

definition mockSetores :: "Setor list" where
  "mockSetores =
    [\<lparr>setor_id = ''1'', setor_nome = ''Administra'' @ [CHR 0xC3, CHR 0xA7, CHR 0xC3, CHR 0xA3] @ ''o'',
      salas = [''Sala 101'', ''Sala 102'', ''Recep'' @ [CHR 0xC3, CHR 0xA7, CHR 0xC3, CHR 0xA3] @ ''o'']\<rparr>,
     \<lparr>setor_id = ''2'', setor_nome = ''Produ'' @ [CHR 0xC3, CHR 0xA7, CHR 0xC3, CHR 0xA3] @ ''o'',
      salas = [''Linha 1'', ''Linha 2'', ''Estoque'']\<rparr>,
     \<lparr>setor_id = ''3'', setor_nome = ''TI'',
      salas = [''Sala Servidores'', ''Sala T'' @ [CHR 0xC3, CHR 0xA9] @ ''cnica'',
               ''Escrit'' @ [CHR 0xC3, CHR 0xB3] @ ''rio TI'']\<rparr>,
     \<lparr>setor_id = ''4'', setor_nome = ''RH'',
      salas = [''Sala RH'', ''Sala Reuni'' @ [CHR 0xC3, CHR 0xA3] @ ''o'', ''Arquivo'']\<rparr>]"

definition mockMaterials :: "Material list" where
  "mockMaterials =
    [\<lparr>nome = ''Computador Desktop Dell'', bmp = ''BMP001'', setor = ''TI'',
      sala = ''Escrit'' @ [CHR 0xC3, CHR 0xB3] @ ''rio TI'',
      responsavel = ''Jo'' @ [CHR 0xC3, CHR 0xA3] @ ''o Silva'',
      status = conferido_correto,
      ultimaConferencia = Some \<lparr>data = ''2024-01-15T10:30:00Z'', setorEncontrado = ''TI'',
        salaEncontrada = ''Escrit'' @ [CHR 0xC3, CHR 0xB3] @ ''rio TI''\<rparr>,
      material_id = ''1'', qrCode = ''QR_001_HASH_ABC123'',
      dataCadastro = ''2024-01-01T08:00:00Z''\<rparr>,
     \<lparr>nome = ''Monitor LG 24'' @ [CHR 0x22], bmp = ''BMP002'',
      setor = ''Administra'' @ [CHR 0xC3, CHR 0xA7, CHR 0xC3, CHR 0xA3] @ ''o'',
      sala = ''Sala 101'', responsavel = ''Maria Santos'',
      status = conferido_outro_setor,
      ultimaConferencia = Some \<lparr>data = ''2024-01-15T11:15:00Z'', setorEncontrado = ''TI'',
        salaEncontrada = ''Sala T'' @ [CHR 0xC3, CHR 0xA9] @ ''cnica''\<rparr>,
      material_id = ''2'', qrCode = ''QR_002_HASH_DEF456'',
      dataCadastro = ''2024-01-02T09:15:00Z''\<rparr>,
     \<lparr>nome = ''Impressora HP LaserJet'', bmp = ''BMP003'', setor = ''RH'',
      sala = ''Sala RH'', responsavel = ''Carlos Oliveira'',
      status = nao_conferido,
      ultimaConferencia = None,
      material_id = ''3'', qrCode = ''QR_003_HASH_GHI789'',
      dataCadastro = ''2024-01-03T14:20:00Z''\<rparr>]"

definition initialState :: MaterialsState where
  "initialState = \<lparr>materials = mockMaterials, setores = mockSetores, loading = False\<rparr>"

subsection \<open>Number.prototype.toString on a millisecond clock value\<close>

definition digitChar :: "nat \<Rightarrow> char" where
  "digitChar d = ''0123456789'' ! (d mod 10)"

function toString :: "nat \<Rightarrow> string" where
  "toString n = (if n < 10 then [digitChar n] else toString (n div 10) @ [digitChar (n mod 10)])"
  by pat_completeness auto
termination
  by (relation "measure (\<lambda>n. n)") auto

declare toString.simps [simp del]

subsection \<open>addMaterial\<close>

text \<open>
  The values the function reads from its environment are parameters: \<open>now1\<close> and \<open>now2\<close> are
  the two readings of \<open>Date.now()\<close>, \<open>rnd\<close> is the string
  \<open>Math.random().toString(36).substr(2, 6).toUpperCase()\<close>, and \<open>isoNow\<close> is
  \<open>new Date().toISOString()\<close>. The spread \<open>...materialData\<close> copies the seven fields of the
  input; \<open>status\<close> is written after the spread and so replaces the input's.
\<close>

definition newMaterial :: "nat \<Rightarrow> nat \<Rightarrow> string \<Rightarrow> string \<Rightarrow> MaterialData \<Rightarrow> Material" where
  "newMaterial now1 now2 rnd isoNow materialData =
    \<lparr>nome = nome materialData, bmp = bmp materialData, setor = setor materialData,
     sala = sala materialData, responsavel = responsavel materialData,
     status = nao_conferido,
     ultimaConferencia = ultimaConferencia materialData,
     material_id = toString now1,
     qrCode = ''QR_'' @ toString now2 @ ''_HASH_'' @ rnd,
     dataCadastro = isoNow\<rparr>"

definition addMaterial ::
  "nat \<Rightarrow> nat \<Rightarrow> string \<Rightarrow> string \<Rightarrow> MaterialData \<Rightarrow> MaterialsState \<Rightarrow> MaterialsState" where
  "addMaterial now1 now2 rnd isoNow materialData state =
    state\<lparr>materials := materials state @ [newMaterial now1 now2 rnd isoNow materialData]\<rparr>"

subsection \<open>updateMaterial\<close>

text \<open>\<open>{ ...material, ...updates }\<close>: a key present in \<open>updates\<close> replaces the material's.\<close>

definition spread :: "'a \<Rightarrow> 'a option \<Rightarrow> 'a" where
  "spread old upd = (case upd of None \<Rightarrow> old | Some v \<Rightarrow> v)"

definition mergeUpdates :: "Material \<Rightarrow> MaterialUpdates \<Rightarrow> Material" where
  "mergeUpdates material updates =
    \<lparr>nome = spread (nome material) (upd_nome updates),
     bmp = spread (bmp material) (upd_bmp updates),
     setor = spread (setor material) (upd_setor updates),
     sala = spread (sala material) (upd_sala updates),
     responsavel = spread (responsavel material) (upd_responsavel updates),
     status = spread (status material) (upd_status updates),
     ultimaConferencia = spread (ultimaConferencia material) (upd_ultimaConferencia updates),
     material_id = spread (material_id material) (upd_id updates),
     qrCode = spread (qrCode material) (upd_qrCode updates),
     dataCadastro = spread (dataCadastro material) (upd_dataCadastro updates)\<rparr>"

definition updateMaterial :: "string \<Rightarrow> MaterialUpdates \<Rightarrow> MaterialsState \<Rightarrow> MaterialsState" where
  "updateMaterial i updates state =
    state\<lparr>materials :=
      map (\<lambda>material. if material_id material = i then mergeUpdates material updates else material)
        (materials state)\<rparr>"

subsection \<open>deleteMaterial\<close>

definition deleteMaterial :: "string \<Rightarrow> MaterialsState \<Rightarrow> MaterialsState" where
  "deleteMaterial i state =
    state\<lparr>materials := filter (\<lambda>material. material_id material \<noteq> i) (materials state)\<rparr>"

subsection \<open>conferirMaterial\<close>

text \<open>
  \<open>now\<close> is \<open>new Date().toISOString()\<close>. The arguments \<open>qrCode\<close>, \<open>setor\<close> and \<open>sala\<close> of the source
  are \<open>code\<close>, \<open>s\<close> and \<open>r\<close> here, the source's names being the field selectors. The early
  \<open>return\<close> when \<open>find\<close> yields \<open>undefined\<close> is the \<open>None\<close> branch.
\<close>

definition conferido :: "Status \<Rightarrow> string \<Rightarrow> string \<Rightarrow> string \<Rightarrow> Material \<Rightarrow> Material" where
  "conferido st now s r m =
    m\<lparr>status := st,
      ultimaConferencia := Some \<lparr>data = now, setorEncontrado = s, salaEncontrada = r\<rparr>\<rparr>"

definition conferirMaterial ::
  "string \<Rightarrow> string \<Rightarrow> string \<Rightarrow> string \<Rightarrow> MaterialsState \<Rightarrow> MaterialsState" where
  "conferirMaterial now code s r state =
    (case find (\<lambda>m. qrCode m = code) (materials state) of
       None \<Rightarrow> state
     | Some material \<Rightarrow>
         let isCorrectLocation = (setor material = s \<and> sala material = r);
             st = (if isCorrectLocation then conferido_correto else conferido_outro_setor)
         in state\<lparr>materials :=
              map (\<lambda>m. if qrCode m = code then conferido st now s r m else m) (materials state)\<rparr>)"

definition dropTimestamps :: "MaterialsState \<Rightarrow> MaterialsState" where
  \<comment> \<open>the state with the \<open>data\<close> of every \<open>ultimaConferencia\<close> blanked, for comparing two
      states apart from the time of the scan\<close>
  "dropTimestamps state =
    state\<lparr>materials :=
      map (\<lambda>m. m\<lparr>ultimaConferencia := map_option (\<lambda>c. c\<lparr>data := []\<rparr>) (ultimaConferencia m)\<rparr>)
        (materials state)\<rparr>"

subsection \<open>Sequences of store operations\<close>

datatype Operation =
    AddMaterial nat nat string string MaterialData
  | UpdateMaterial string MaterialUpdates
  | DeleteMaterial string
  | ConferirMaterial string string string string

fun applyOperation :: "Operation \<Rightarrow> MaterialsState \<Rightarrow> MaterialsState" where
  "applyOperation (AddMaterial now1 now2 rnd isoNow materialData) state =
     addMaterial now1 now2 rnd isoNow materialData state"
| "applyOperation (UpdateMaterial i updates) state = updateMaterial i updates state"
| "applyOperation (DeleteMaterial i) state = deleteMaterial i state"
| "applyOperation (ConferirMaterial now code s r) state = conferirMaterial now code s r state"

definition run :: "Operation list \<Rightarrow> MaterialsState \<Rightarrow> MaterialsState" where
  "run ops state = fold applyOperation ops state"

definition emptyUpdates :: MaterialUpdates where
  \<comment> \<open>the object \<open>{}\<close>\<close>
  "emptyUpdates =
    \<lparr>upd_id = None, upd_nome = None, upd_bmp = None, upd_setor = None, upd_sala = None,
     upd_responsavel = None, upd_qrCode = None, upd_status = None,
     upd_ultimaConferencia = None, upd_dataCadastro = None\<rparr>"

subsection \<open>Predicates on registry states\<close>

definition uniqueTags :: "MaterialsState \<Rightarrow> bool" where
  "uniqueTags state \<longleftrightarrow>
     distinct (map bmp (materials state)) \<and> distinct (map qrCode (materials state))"

definition derivable :: "Material \<Rightarrow> bool" where
  \<comment> \<open>a material without \<open>ultimaConferencia\<close> is \<open>nao_conferido\<close>\<close>
  "derivable m = (case ultimaConferencia m of None \<Rightarrow> status m = nao_conferido | Some c \<Rightarrow> True)"

definition allDerivable :: "MaterialsState \<Rightarrow> bool" where
  "allDerivable state = list_all derivable (materials state)"

fun keepsConference :: "Operation \<Rightarrow> bool" where
  \<comment> \<open>an update that carries neither \<open>status\<close> nor \<open>ultimaConferencia\<close>; any other operation\<close>
  "keepsConference (UpdateMaterial i updates) =
     (upd_status updates = None \<and> upd_ultimaConferencia updates = None)"
| "keepsConference other = True"

section \<open>The page Materiais (pages/Materiais.tsx)\<close>

text \<open>
  The component state that \<open>handleAddMaterial\<close> reads and writes: the form \<open>newMaterial\<close>,
  \<open>isAddDialogOpen\<close> and \<open>editingMaterial\<close>. The handler returns the component state and
  the store after it.
\<close>

record MateriaisPage =
  page_newMaterial :: MaterialForm
  page_isAddDialogOpen :: bool
  page_editingMaterial :: "Material option"

definition emptyForm :: MaterialForm where
  "emptyForm = \<lparr>nome = [], bmp = [], setor = [], sala = [], responsavel = []\<rparr>"

definition handleAddMaterial ::
  "nat \<Rightarrow> nat \<Rightarrow> string \<Rightarrow> string \<Rightarrow> MateriaisPage \<Rightarrow> MaterialsState
     \<Rightarrow> MateriaisPage \<times> MaterialsState" where
  "handleAddMaterial now1 now2 rnd isoNow page state =
    (let f = page_newMaterial page in
     if nome f = [] \<or> bmp f = [] \<or> setor f = [] \<or> sala f = [] then (page, state)
     else
       (page\<lparr>page_newMaterial := emptyForm, page_isAddDialogOpen := False\<rparr>,
        addMaterial now1 now2 rnd isoNow
          \<lparr>nome = nome f, bmp = bmp f, setor = setor f, sala = sala f,
           responsavel = responsavel f, status = nao_conferido, ultimaConferencia = None\<rparr>
          state))"

section \<open>Authentication (hooks/useAuth.ts)\<close>

datatype Tipo = admin | operador

record User =
  user_id :: string
  user_login :: string
  user_nome :: string
  tipo :: Tipo

record Credentials =
  cred_login :: string
  senha :: string

record AuthState =
  user :: "User option"
  isAuthenticated :: bool

definition initialAuth :: AuthState where
  "initialAuth = \<lparr>user = None, isAuthenticated = False\<rparr>"

text \<open>
  \<open>login\<close> returns the value the promise resolves to and the state after the call;
  \<open>adminUser\<close> is the constant \<open>user\<close> that the mock login builds.
\<close>

definition adminUser :: User where
  "adminUser =
    \<lparr>user_id = ''1'', user_login = ''admin'', user_nome = ''Administrador'', tipo = admin\<rparr>"

definition login :: "Credentials \<Rightarrow> AuthState \<Rightarrow> bool \<times> AuthState" where
  "login credentials state =
    (if cred_login credentials = ''admin'' \<and> senha credentials = ''123456''
     then (True, state\<lparr>user := Some adminUser, isAuthenticated := True\<rparr>)
     else (False, state))"

definition logout :: "AuthState \<Rightarrow> AuthState" where
  "logout state = state\<lparr>user := None, isAuthenticated := False\<rparr>"

datatype AuthAction = Login Credentials | Logout

fun applyAuth :: "AuthAction \<Rightarrow> AuthState \<Rightarrow> AuthState" where
  "applyAuth (Login credentials) state = snd (login credentials state)"
| "applyAuth Logout state = logout state"

definition runAuth :: "AuthAction list \<Rightarrow> AuthState \<Rightarrow> AuthState" where
  "runAuth actions state = fold applyAuth actions state"

definition authInvariant :: "AuthState \<Rightarrow> bool" where
  "authInvariant state \<longleftrightarrow>
     (if isAuthenticated state then map_option tipo (user state) = Some admin
      else user state = None)"

section \<open>Scanning\<close>

lemma find_map_preserved:
  assumes "\<And>x. P (f x) = P x"
  shows "find P (map f xs) = map_option f (find P xs)"
  by (induction xs) (simp_all add: assms)

lemma find_unique_index:
  assumes "i < length xs" and "P (xs ! i)"
    and "\<forall>j < length xs. j \<noteq> i \<longrightarrow> \<not> P (xs ! j)"
  shows "find P xs = Some (xs ! i)"
  unfolding find_Some_iff
proof (intro exI conjI allI impI)
  show "i < length xs" by fact
  show "P (xs ! i)" by fact
  show "xs ! i = xs ! i" by simp
  fix j assume "j < i"
  then show "\<not> P (xs ! j)" using assms(1,3) by auto
qed

lemma conferido_fields [simp]:
  "qrCode (conferido st now s r m) = qrCode m"
  "setor (conferido st now s r m) = setor m"
  "sala (conferido st now s r m) = sala m"
  "status (conferido st now s r m) = st"
  "ultimaConferencia (conferido st now s r m)
     = Some \<lparr>data = now, setorEncontrado = s, salaEncontrada = r\<rparr>"
  by (simp_all add: conferido_def)

lemma conferirMaterial_found:
  assumes "find (\<lambda>m. qrCode m = code) (materials state) = Some material"
  shows "conferirMaterial now code s r state =
    state\<lparr>materials :=
      map (\<lambda>m. if qrCode m = code
                then conferido (if setor material = s \<and> sala material = r
                                then conferido_correto else conferido_outro_setor) now s r m
                else m) (materials state)\<rparr>"
  using assms by (simp add: conferirMaterial_def Let_def)

lemma mockMaterials_nth:
  "length mockMaterials = 3"
  "qrCode (mockMaterials ! 0) = ''QR_001_HASH_ABC123''"
  "qrCode (mockMaterials ! Suc 0) = ''QR_002_HASH_DEF456''"
  "qrCode (mockMaterials ! 2) = ''QR_003_HASH_GHI789''"
  by (simp_all add: mockMaterials_def numeral_2_eq_2)

lemma less_three_cases: "j < (3::nat) \<longleftrightarrow> j = 0 \<or> j = Suc 0 \<or> j = 2"
  by auto

subsection \<open>The decision rule\<close>

text \<open>
  C1. Let \<open>M\<close> be the material at position \<open>i\<close> of the registry, and let no material at another
  position carry the same \<open>qrCode\<close>. After \<open>conferirMaterial now (qrCode M) S R\<close> the material
  at position \<open>i\<close> has status \<open>conferido_correto\<close> exactly when \<open>S\<close> is the sector of \<open>M\<close> and
  \<open>R\<close> its room, \<open>conferido_outro_setor\<close> exactly when not, and its \<open>ultimaConferencia\<close> is the
  record of \<open>now\<close>, \<open>S\<close> and \<open>R\<close>.
\<close>

theorem conferirMaterial_sets_status:
  assumes "i < length (materials state)"
    and "M = materials state ! i"
    and "\<forall>j < length (materials state). j \<noteq> i \<longrightarrow> qrCode (materials state ! j) \<noteq> qrCode M"
    and "M' = materials (conferirMaterial now (qrCode M) S R state) ! i"
  shows "(status M' = conferido_correto \<longleftrightarrow> S = setor M \<and> R = sala M)
       \<and> (status M' = conferido_outro_setor \<longleftrightarrow> \<not> (S = setor M \<and> R = sala M))
       \<and> ultimaConferencia M' = Some \<lparr>data = now, setorEncontrado = S, salaEncontrada = R\<rparr>"
proof -
  have "find (\<lambda>m. qrCode m = qrCode M) (materials state) = Some M"
    using assms(1,2,3) find_unique_index [of i "materials state" "\<lambda>m. qrCode m = qrCode M"]
    by simp
  from conferirMaterial_found [OF this]
  have "M' = conferido (if setor M = S \<and> sala M = R
                        then conferido_correto else conferido_outro_setor) now S R M"
    using assms(1,2,4) by simp
  then show ?thesis by auto
qed

theorem conferirMaterial_sets_status_witness:
  "(0::nat) < length (materials initialState)
   \<and> qrCode (materials initialState ! 1) \<noteq> qrCode (materials initialState ! 0)
   \<and> qrCode (materials initialState ! 2) \<noteq> qrCode (materials initialState ! 0)
   \<and> status (materials (conferirMaterial ''2024-02-01T09:00:00Z''
         (qrCode (materials initialState ! 0)) ''TI'' ''Sala 101'' initialState) ! 0)
       = conferido_outro_setor
   \<and> ultimaConferencia (materials (conferirMaterial ''2024-02-01T09:00:00Z''
         (qrCode (materials initialState ! 0)) ''TI'' ''Sala 101'' initialState) ! 0)
       = Some \<lparr>data = ''2024-02-01T09:00:00Z'', setorEncontrado = ''TI'',
               salaEncontrada = ''Sala 101''\<rparr>
   \<and> status (materials (conferirMaterial ''2024-02-01T09:00:00Z''
         (qrCode (materials initialState ! 0)) ''TI'' (''Escrit'' @ [CHR 0xC3, CHR 0xB3] @ ''rio TI'')
         initialState) ! 0)
       = conferido_correto"
proof -
  have h1: "(0::nat) < length (materials initialState)"
    by (simp add: initialState_def mockMaterials_nth)
  have h2: "\<forall>j < length (materials initialState). j \<noteq> 0 \<longrightarrow>
         qrCode (materials initialState ! j) \<noteq> qrCode (materials initialState ! 0)"
    by (simp add: initialState_def mockMaterials_nth less_three_cases)
  have loc: "setor (materials initialState ! 0) = ''TI''"
    "sala (materials initialState ! 0) = ''Escrit'' @ [CHR 0xC3, CHR 0xB3] @ ''rio TI''"
    by (simp_all add: initialState_def mockMaterials_def)
  have other: "status (materials (conferirMaterial ''2024-02-01T09:00:00Z''
         (qrCode (materials initialState ! 0)) ''TI'' ''Sala 101'' initialState) ! 0)
       = conferido_outro_setor
     \<and> ultimaConferencia (materials (conferirMaterial ''2024-02-01T09:00:00Z''
         (qrCode (materials initialState ! 0)) ''TI'' ''Sala 101'' initialState) ! 0)
       = Some \<lparr>data = ''2024-02-01T09:00:00Z'', setorEncontrado = ''TI'',
               salaEncontrada = ''Sala 101''\<rparr>"
    using loc conferirMaterial_sets_status [OF h1 refl h2 refl,
      of "''2024-02-01T09:00:00Z''" "''TI''" "''Sala 101''"]
    by simp
  have correct: "status (materials (conferirMaterial ''2024-02-01T09:00:00Z''
         (qrCode (materials initialState ! 0)) ''TI'' (''Escrit'' @ [CHR 0xC3, CHR 0xB3] @ ''rio TI'')
         initialState) ! 0)
       = conferido_correto"
    using loc conferirMaterial_sets_status [OF h1 refl h2 refl,
      of "''2024-02-01T09:00:00Z''" "''TI''" "''Escrit'' @ [CHR 0xC3, CHR 0xB3] @ ''rio TI''"]
    by simp
  have h3: "qrCode (materials initialState ! 1) \<noteq> qrCode (materials initialState ! 0)"
    "qrCode (materials initialState ! 2) \<noteq> qrCode (materials initialState ! 0)"
    by (simp_all add: initialState_def mockMaterials_nth)
  show ?thesis
    using h1 h3 other correct by blast
qed

subsection \<open>A code that no material carries\<close>

text \<open>
  C2. When no material of the registry has the scanned code as its \<open>qrCode\<close>,
  \<open>conferirMaterial\<close> returns the state it was given: no material is modified, added or
  removed, and the sector directory and the loading flag are the same.
\<close>

theorem conferirMaterial_unknown_code_noop:
  assumes "\<forall>m \<in> set (materials state). qrCode m \<noteq> code"
  shows "conferirMaterial now code s r state = state"
proof -
  have "find (\<lambda>m. qrCode m = code) (materials state) = None"
    using assms by (simp add: find_None_iff)
  then show ?thesis
    by (simp add: conferirMaterial_def)
qed

theorem conferirMaterial_unknown_code_noop_witness:
  "map qrCode (materials initialState)
     = [''QR_001_HASH_ABC123'', ''QR_002_HASH_DEF456'', ''QR_003_HASH_GHI789'']
   \<and> conferirMaterial ''2024-02-01T09:00:00Z'' ''QR_999_HASH_ZZZ999'' ''TI'' ''Sala 101'' initialState
       = initialState"
proof -
  have codes: "map qrCode (materials initialState)
     = [''QR_001_HASH_ABC123'', ''QR_002_HASH_DEF456'', ''QR_003_HASH_GHI789'']"
    by (simp add: initialState_def mockMaterials_def)
  have h: "\<forall>m \<in> set (materials initialState). qrCode m \<noteq> ''QR_999_HASH_ZZZ999''"
    by (simp add: initialState_def mockMaterials_def)
  show ?thesis
    using codes conferirMaterial_unknown_code_noop [OF h] by simp
qed

subsection \<open>What a scan leaves alone\<close>

text \<open>
  C5. A scan changes nothing but \<open>status\<close> and \<open>ultimaConferencia\<close>: at every position of
  the registry the material after \<open>conferirMaterial\<close> has the \<open>setor\<close>, \<open>sala\<close>, \<open>nome\<close>,
  \<open>bmp\<close>, \<open>responsavel\<close>, \<open>id\<close>, \<open>qrCode\<close> and \<open>dataCadastro\<close> it had before, a material whose
  \<open>qrCode\<close> differs from the scanned code is the same record as before, and the registry
  keeps its length, its sector directory and its loading flag.
\<close>

theorem conferirMaterial_frame:
  assumes "i < length (materials state)"
    and "m = materials state ! i"
    and "m' = materials (conferirMaterial now code s r state) ! i"
  shows "length (materials (conferirMaterial now code s r state)) = length (materials state)
       \<and> setores (conferirMaterial now code s r state) = setores state
       \<and> loading (conferirMaterial now code s r state) = loading state
       \<and> (qrCode m \<noteq> code \<longrightarrow> m' = m)
       \<and> m' = m\<lparr>status := status m', ultimaConferencia := ultimaConferencia m'\<rparr>
       \<and> setor m' = setor m \<and> sala m' = sala m
       \<and> nome m' = nome m \<and> bmp m' = bmp m \<and> responsavel m' = responsavel m
       \<and> material_id m' = material_id m \<and> qrCode m' = qrCode m
       \<and> dataCadastro m' = dataCadastro m"
proof (cases "find (\<lambda>m. qrCode m = code) (materials state)")
  case None
  then have "conferirMaterial now code s r state = state"
    by (simp add: conferirMaterial_def)
  then show ?thesis using assms by simp
next
  case (Some material)
  show ?thesis
    using assms unfolding conferirMaterial_found [OF Some]
    by (simp add: conferido_def)
qed

theorem conferirMaterial_frame_witness:
  "(1::nat) < length (materials initialState)
   \<and> qrCode (materials initialState ! 1) \<noteq> ''QR_001_HASH_ABC123''
   \<and> materials (conferirMaterial ''2024-02-01T09:00:00Z'' ''QR_001_HASH_ABC123''
        ''RH'' ''Arquivo'' initialState) ! 1 = materials initialState ! 1
   \<and> length (materials (conferirMaterial ''2024-02-01T09:00:00Z'' ''QR_001_HASH_ABC123''
        ''RH'' ''Arquivo'' initialState)) = 3"
proof -
  have h: "(1::nat) < length (materials initialState)"
    by (simp add: initialState_def mockMaterials_nth)
  have q: "qrCode (materials initialState ! 1) \<noteq> ''QR_001_HASH_ABC123''"
    by (simp add: initialState_def mockMaterials_nth)
  have l: "length (materials initialState) = 3"
    by (simp add: initialState_def mockMaterials_nth)
  show ?thesis
    using h q l conferirMaterial_frame [OF h refl refl,
      of "''2024-02-01T09:00:00Z''" "''QR_001_HASH_ABC123''" "''RH''" "''Arquivo''"]
    by simp
qed

subsection \<open>Scanning twice\<close>

lemma conferirMaterial_twice:
  "conferirMaterial t2 code s r (conferirMaterial t1 code s r state)
     = conferirMaterial t2 code s r state"
proof (cases "find (\<lambda>m. qrCode m = code) (materials state)")
  case None
  then show ?thesis by (simp add: conferirMaterial_def)
next
  case (Some material)
  let ?st = "if setor material = s \<and> sala material = r
             then conferido_correto else conferido_outro_setor"
  let ?f = "\<lambda>t m. if qrCode m = code then conferido ?st t s r m else m"
  have first: "conferirMaterial t1 code s r state
                 = state\<lparr>materials := map (?f t1) (materials state)\<rparr>"
    by (rule conferirMaterial_found [OF Some])
  have "find (\<lambda>m. qrCode m = code) (map (?f t1) (materials state))
          = map_option (?f t1) (find (\<lambda>m. qrCode m = code) (materials state))"
    by (rule find_map_preserved) simp
  then have found: "find (\<lambda>m. qrCode m = code)
                      (materials (state\<lparr>materials := map (?f t1) (materials state)\<rparr>))
                    = Some (?f t1 material)"
    using Some by simp
  have same: "(if setor (?f t1 material) = s \<and> sala (?f t1 material) = r
               then conferido_correto else conferido_outro_setor) = ?st"
    by simp
  have comp: "(\<lambda>m. if qrCode m = code then conferido ?st t2 s r m else m) \<circ> ?f t1 = ?f t2"
    by (rule ext) (simp add: conferido_def)
  show ?thesis
    unfolding first conferirMaterial_found [OF found] same conferirMaterial_found [OF Some]
    by (simp add: comp)
qed

lemma dropTimestamps_conferirMaterial:
  "dropTimestamps (conferirMaterial t2 code s r state)
     = dropTimestamps (conferirMaterial t1 code s r state)"
proof (cases "find (\<lambda>m. qrCode m = code) (materials state)")
  case None
  then show ?thesis by (simp add: conferirMaterial_def)
next
  case (Some material)
  show ?thesis
    unfolding conferirMaterial_found [OF Some]
    by (simp add: dropTimestamps_def conferido_def)
qed

text \<open>
  C6. Two scans in succession with the same code, sector and room, at times \<open>t1\<close> and then
  \<open>t2\<close>, end in the state that the single scan at \<open>t2\<close> ends in; apart from the timestamps
  it is the state after the single scan at \<open>t1\<close>.
\<close>

theorem conferirMaterial_idempotent:
  "conferirMaterial t2 code s r (conferirMaterial t1 code s r state)
     = conferirMaterial t2 code s r state
   \<and> dropTimestamps (conferirMaterial t2 code s r (conferirMaterial t1 code s r state))
     = dropTimestamps (conferirMaterial t1 code s r state)"
  using conferirMaterial_twice [of t2 code s r t1 state]
        dropTimestamps_conferirMaterial [of t2 code s r state t1]
  by simp

section \<open>The registry\<close>

subsection \<open>Creation\<close>



subsection \<open>Validation of the creation form\<close>

text \<open>
  C8, as stated, fails: \<open>addMaterial\<close>, the create operation of the store, checks nothing.
  With every field empty it still appends a record to the mock registry.
\<close>

theorem addMaterial_accepts_empty_fields:
  "length (materials (addMaterial 1700000000000 1700000000001 ''K3J9QZ''
      ''2023-11-14T22:13:20.000Z''
      \<lparr>nome = [], bmp = [], setor = [], sala = [], responsavel = [],
       status = nao_conferido, ultimaConferencia = None\<rparr> initialState)) = 4
   \<and> length (materials initialState) = 3
   \<and> nome (last (materials (addMaterial 1700000000000 1700000000001 ''K3J9QZ''
      ''2023-11-14T22:13:20.000Z''
      \<lparr>nome = [], bmp = [], setor = [], sala = [], responsavel = [],
       status = nao_conferido, ultimaConferencia = None\<rparr> initialState))) = []"
  by (simp add: addMaterial_def newMaterial_def initialState_def mockMaterials_nth)

text \<open>
  C8, amended. The check is in \<open>handleAddMaterial\<close>, the handler through which the page
  creates a material: when \<open>nome\<close>, \<open>bmp\<close>, \<open>setor\<close> or \<open>sala\<close> of the form is empty it returns
  before calling \<open>addMaterial\<close>, with the component state and the store as they were, so no
  record is added. When all four are non-empty the store is the one \<open>addMaterial\<close> yields
  on the form's fields, with one record more. \<open>addMaterial\<close> itself adds a record for every
  input \<open>d\<close>.
\<close>

theorem handleAddMaterial_validates:
  assumes "f = page_newMaterial page"
  shows "(nome f = [] \<or> bmp f = [] \<or> setor f = [] \<or> sala f = []
            \<longrightarrow> handleAddMaterial now1 now2 rnd isoNow page state = (page, state))
       \<and> (nome f \<noteq> [] \<and> bmp f \<noteq> [] \<and> setor f \<noteq> [] \<and> sala f \<noteq> []
            \<longrightarrow> snd (handleAddMaterial now1 now2 rnd isoNow page state)
                  = addMaterial now1 now2 rnd isoNow
                      \<lparr>nome = nome f, bmp = bmp f, setor = setor f, sala = sala f,
                       responsavel = responsavel f, status = nao_conferido,
                       ultimaConferencia = None\<rparr> state
              \<and> length (materials (snd (handleAddMaterial now1 now2 rnd isoNow page state)))
                  = Suc (length (materials state)))
       \<and> length (materials (addMaterial now1 now2 rnd isoNow d state))
            = Suc (length (materials state))"
  using assms by (auto simp add: handleAddMaterial_def Let_def addMaterial_def)

theorem handleAddMaterial_validates_witness:
  "handleAddMaterial 1700000000000 1700000000000 ''K3J9QZ'' ''2023-11-14T22:13:20.000Z''
      \<lparr>page_newMaterial = \<lparr>nome = ''Notebook'', bmp = [], setor = ''TI'',
          sala = ''Sala Servidores'', responsavel = ''Ana''\<rparr>,
        page_isAddDialogOpen = True, page_editingMaterial = None\<rparr> initialState
     = (\<lparr>page_newMaterial = \<lparr>nome = ''Notebook'', bmp = [], setor = ''TI'',
          sala = ''Sala Servidores'', responsavel = ''Ana''\<rparr>,
        page_isAddDialogOpen = True, page_editingMaterial = None\<rparr>, initialState)
   \<and> length (materials (snd (handleAddMaterial 1700000000000 1700000000000 ''K3J9QZ''
        ''2023-11-14T22:13:20.000Z''
      \<lparr>page_newMaterial = \<lparr>nome = ''Notebook'', bmp = ''BMP010'', setor = ''TI'',
          sala = ''Sala Servidores'', responsavel = ''Ana''\<rparr>,
        page_isAddDialogOpen = True, page_editingMaterial = None\<rparr> initialState))) = 4"
proof -
  let ?bad = "\<lparr>page_newMaterial = \<lparr>nome = ''Notebook'', bmp = [], setor = ''TI'',
          sala = ''Sala Servidores'', responsavel = ''Ana''\<rparr>,
        page_isAddDialogOpen = True, page_editingMaterial = None\<rparr>"
  let ?good = "\<lparr>page_newMaterial = \<lparr>nome = ''Notebook'', bmp = ''BMP010'', setor = ''TI'',
          sala = ''Sala Servidores'', responsavel = ''Ana''\<rparr>,
        page_isAddDialogOpen = True, page_editingMaterial = None\<rparr>"
  have l: "length (materials initialState) = 3"
    by (simp add: initialState_def mockMaterials_nth)
  have bad: "bmp (page_newMaterial ?bad) = []"
    by simp
  have good: "nome (page_newMaterial ?good) \<noteq> [] \<and> bmp (page_newMaterial ?good) \<noteq> []
      \<and> setor (page_newMaterial ?good) \<noteq> [] \<and> sala (page_newMaterial ?good) \<noteq> []"
    by simp
  from handleAddMaterial_validates [OF refl, of ?bad 1700000000000 1700000000000
        "''K3J9QZ''" "''2023-11-14T22:13:20.000Z''" initialState] bad
  have r1: "handleAddMaterial 1700000000000 1700000000000 ''K3J9QZ''
      ''2023-11-14T22:13:20.000Z'' ?bad initialState = (?bad, initialState)"
    by blast
  from handleAddMaterial_validates [OF refl, of ?good 1700000000000 1700000000000
        "''K3J9QZ''" "''2023-11-14T22:13:20.000Z''" initialState] good
  have r2: "length (materials (snd (handleAddMaterial 1700000000000 1700000000000 ''K3J9QZ''
      ''2023-11-14T22:13:20.000Z'' ?good initialState))) = Suc (length (materials initialState))"
    by blast
  show ?thesis
    using r1 r2 l by simp
qed

subsection \<open>Update\<close>

lemma spread_None [simp]: "spread old None = old"
  by (simp add: spread_def)

lemma spread_Some [simp]: "spread old (Some v) = v"
  by (simp add: spread_def)

lemma mockMaterials_third:
  "status (mockMaterials ! 2) = nao_conferido"
  "ultimaConferencia (mockMaterials ! 2) = None"
  "material_id (mockMaterials ! 2) = ''3''"
  by (simp_all add: mockMaterials_def numeral_2_eq_2)

text \<open>
  C4, as stated, fails: \<open>updateMaterial\<close> spreads every key of \<open>updates\<close> over the
  material, and \<open>Partial<Material>\<close> has the key \<open>status\<close>. Updating the third mock material
  with \<open>{status: 'conferido_correto'}\<close> changes its status.
\<close>

theorem updateMaterial_changes_status:
  "status (materials (updateMaterial ''3'' (emptyUpdates\<lparr>upd_status := Some conferido_correto\<rparr>)
             initialState) ! 2) = conferido_correto
   \<and> status (materials initialState ! 2) = nao_conferido"
  by (simp add: updateMaterial_def initialState_def mockMaterials_nth mockMaterials_third
        mergeUpdates_def emptyUpdates_def)

lemma updateMaterial_nth:
  assumes "i < length (materials state)"
  shows "materials (updateMaterial ident updates state) ! i =
           (if material_id (materials state ! i) = ident
            then mergeUpdates (materials state ! i) updates else materials state ! i)"
  using assms by (simp add: updateMaterial_def)

lemma updateMaterial_absent:
  assumes "\<forall>m \<in> set (materials state). material_id m \<noteq> ident"
  shows "updateMaterial ident updates state = state"
proof -
  have "map (\<lambda>material. if material_id material = ident
                         then mergeUpdates material updates else material) (materials state)
          = materials state"
    using assms by (simp add: map_idI)
  then show ?thesis by (simp add: updateMaterial_def)
qed

text \<open>
  C4, amended. \<open>updateMaterial ident updates\<close> keeps the length of the registry, replaces
  every material whose \<open>id\<close> is \<open>ident\<close> by its merge with \<open>updates\<close> and keeps every other
  material. Each of \<open>id\<close>, \<open>qrCode\<close>, \<open>dataCadastro\<close>, \<open>status\<close> and \<open>ultimaConferencia\<close> is
  unchanged when \<open>updates\<close> does not carry that key. When no material has the \<open>id\<close>, the
  state is unchanged.
\<close>

theorem updateMaterial_merges:
  assumes "i < length (materials state)"
    and "m = materials state ! i"
    and "m' = materials (updateMaterial ident updates state) ! i"
  shows "length (materials (updateMaterial ident updates state)) = length (materials state)
       \<and> (material_id m = ident \<longrightarrow> m' = mergeUpdates m updates)
       \<and> (material_id m \<noteq> ident \<longrightarrow> m' = m)
       \<and> (upd_id updates = None \<longrightarrow> material_id m' = material_id m)
       \<and> (upd_qrCode updates = None \<longrightarrow> qrCode m' = qrCode m)
       \<and> (upd_dataCadastro updates = None \<longrightarrow> dataCadastro m' = dataCadastro m)
       \<and> (upd_status updates = None \<longrightarrow> status m' = status m)
       \<and> (upd_ultimaConferencia updates = None \<longrightarrow> ultimaConferencia m' = ultimaConferencia m)
       \<and> ((\<forall>x \<in> set (materials state). material_id x \<noteq> ident)
            \<longrightarrow> updateMaterial ident updates state = state)"
proof -
  have len: "length (materials (updateMaterial ident updates state)) = length (materials state)"
    by (simp add: updateMaterial_def)
  have m': "m' = (if material_id m = ident then mergeUpdates m updates else m)"
    using assms by (simp add: updateMaterial_nth)
  have absent: "(\<forall>x \<in> set (materials state). material_id x \<noteq> ident)
            \<longrightarrow> updateMaterial ident updates state = state"
    using updateMaterial_absent by blast
  show ?thesis
    using len absent unfolding m' by (simp add: mergeUpdates_def)
qed

theorem updateMaterial_merges_witness:
  "(0::nat) < length (materials initialState)
   \<and> upd_status (emptyUpdates\<lparr>upd_sala := Some ''Sala Servidores''\<rparr>) = None
   \<and> material_id (materials initialState ! 0) = ''1''
   \<and> map material_id (materials initialState) = [''1'', ''2'', ''3'']
   \<and> updateMaterial ''7'' (emptyUpdates\<lparr>upd_sala := Some ''Sala Servidores''\<rparr>) initialState
        = initialState
   \<and> sala (materials (updateMaterial ''1'' (emptyUpdates\<lparr>upd_sala := Some ''Sala Servidores''\<rparr>)
        initialState) ! 0) = ''Sala Servidores''
   \<and> status (materials (updateMaterial ''1'' (emptyUpdates\<lparr>upd_sala := Some ''Sala Servidores''\<rparr>)
        initialState) ! 0) = conferido_correto"
proof -
  let ?u = "emptyUpdates\<lparr>upd_sala := Some ''Sala Servidores''\<rparr>"
  have h: "(0::nat) < length (materials initialState)"
    by (simp add: initialState_def mockMaterials_nth)
  have u: "upd_status ?u = None" "upd_sala ?u = Some ''Sala Servidores''"
    by (simp_all add: emptyUpdates_def)
  have ids: "material_id (materials initialState ! 0) = ''1''"
    "\<forall>x \<in> set (materials initialState). material_id x \<noteq> ''7''"
    "status (materials initialState ! 0) = conferido_correto"
    "map material_id (materials initialState) = [''1'', ''2'', ''3'']"
    by (simp_all add: initialState_def mockMaterials_def)
  show ?thesis
    using h u ids
      updateMaterial_merges [OF h refl refl, of "''1''" ?u]
      updateMaterial_merges [OF h refl refl, of "''7''" ?u]
    by (simp add: mergeUpdates_def)
qed

subsection \<open>Uniqueness of asset tags and QR codes\<close>

text \<open>
  C3. The mock registry has pairwise distinct \<open>bmp\<close> and \<open>qrCode\<close> values, but the store
  does not keep them distinct: \<open>addMaterial\<close> with the \<open>bmp\<close> of an existing material yields
  two materials with that \<open>bmp\<close>, and \<open>updateMaterial\<close> with the \<open>qrCode\<close> of another material
  yields two materials with that \<open>qrCode\<close>.
\<close>

theorem uniqueTags_broken:
  "uniqueTags initialState
   \<and> \<not> distinct (map bmp (materials
        (addMaterial 1700000000000 1700000000000 ''K3J9QZ'' ''2023-11-14T22:13:20.000Z''
          \<lparr>nome = ''Notebook'', bmp = ''BMP001'', setor = ''TI'', sala = ''Sala Servidores'',
           responsavel = ''Ana'', status = nao_conferido, ultimaConferencia = None\<rparr>
          initialState)))
   \<and> \<not> distinct (map qrCode (materials
        (updateMaterial ''2'' (emptyUpdates\<lparr>upd_qrCode := Some ''QR_001_HASH_ABC123''\<rparr>)
          initialState)))"
  by (simp add: uniqueTags_def initialState_def mockMaterials_def addMaterial_def
        newMaterial_def updateMaterial_def mergeUpdates_def emptyUpdates_def spread_def)

subsection \<open>A material never scanned is not checked\<close>

text \<open>
  C9, as stated, fails: an update that carries \<open>status\<close> gives the third mock material,
  which has no \<open>ultimaConferencia\<close>, the status \<open>conferido_correto\<close>.
\<close>

theorem update_breaks_derivable:
  "\<not> allDerivable (run [UpdateMaterial ''3'' (emptyUpdates\<lparr>upd_status := Some conferido_correto\<rparr>)]
        initialState)"
  by (simp add: allDerivable_def run_def updateMaterial_def initialState_def mockMaterials_def
        derivable_def mergeUpdates_def emptyUpdates_def)

lemma derivable_newMaterial: "derivable (newMaterial now1 now2 rnd isoNow d)"
  by (simp add: derivable_def newMaterial_def split: option.splits)

lemma derivable_conferido: "derivable (conferido st now s r m)"
  by (simp add: derivable_def)

lemma derivable_mergeUpdates:
  assumes "upd_status updates = None" and "upd_ultimaConferencia updates = None"
    and "derivable m"
  shows "derivable (mergeUpdates m updates)"
  using assms by (simp add: derivable_def mergeUpdates_def split: option.splits)

lemma list_all_map_preserved:
  assumes "list_all P xs" and "\<And>x. P x \<Longrightarrow> P (f x)"
  shows "list_all P (map f xs)"
  using assms by (induction xs) simp_all

lemma list_all_filter_preserved:
  assumes "list_all P xs"
  shows "list_all P (filter Q xs)"
  using assms by (induction xs) simp_all

lemma allDerivable_conferirMaterial:
  assumes "allDerivable state"
  shows "allDerivable (conferirMaterial now code s r state)"
proof (cases "find (\<lambda>m. qrCode m = code) (materials state)")
  case None
  then show ?thesis using assms by (simp add: conferirMaterial_def)
next
  case (Some material)
  show ?thesis
    using assms unfolding conferirMaterial_found [OF Some] allDerivable_def
    by (simp add: list_all_map_preserved derivable_conferido del: list.pred_map)
qed

lemma allDerivable_step:
  assumes "allDerivable state" and "keepsConference operation"
  shows "allDerivable (applyOperation operation state)"
proof (cases operation)
  case (AddMaterial now1 now2 rnd isoNow d)
  then show ?thesis
    using assms(1) by (simp add: allDerivable_def addMaterial_def derivable_newMaterial)
next
  case (UpdateMaterial i updates)
  then show ?thesis
    using assms unfolding allDerivable_def
    by (simp add: updateMaterial_def list_all_map_preserved derivable_mergeUpdates
          del: list.pred_map)
next
  case (DeleteMaterial i)
  then show ?thesis
    using assms(1)
    by (simp add: allDerivable_def deleteMaterial_def list_all_filter_preserved)
next
  case (ConferirMaterial now code s r)
  then show ?thesis
    using assms(1) by (simp add: allDerivable_conferirMaterial)
qed

lemma allDerivable_run:
  assumes "list_all keepsConference ops" and "allDerivable state"
  shows "allDerivable (run ops state)"
  using assms unfolding run_def
  by (induction ops arbitrary: state) (simp_all add: allDerivable_step)

lemma allDerivable_initialState: "allDerivable initialState"
  by (simp add: allDerivable_def initialState_def mockMaterials_def derivable_def)

text \<open>
  C9, amended. In every state reached from the mock registry by a sequence of
  \<open>addMaterial\<close>, \<open>deleteMaterial\<close>, \<open>conferirMaterial\<close> and those \<open>updateMaterial\<close> calls whose
  \<open>updates\<close> carry neither \<open>status\<close> nor \<open>ultimaConferencia\<close>, every material without
  \<open>ultimaConferencia\<close> has status \<open>nao_conferido\<close>.
\<close>

theorem derivable_reachable:
  assumes "list_all keepsConference ops"
  shows "allDerivable (run ops initialState)"
  using assms allDerivable_initialState by (rule allDerivable_run)

theorem derivable_reachable_witness:
  "list_all keepsConference
     [AddMaterial 1700000000000 1700000000001 ''K3J9QZ'' ''2023-11-14T22:13:20.000Z''
        \<lparr>nome = ''Notebook'', bmp = ''BMP010'', setor = ''TI'', sala = ''Sala Servidores'',
         responsavel = ''Ana'', status = nao_conferido, ultimaConferencia = None\<rparr>,
      UpdateMaterial ''3'' (emptyUpdates\<lparr>upd_sala := Some ''Arquivo''\<rparr>),
      ConferirMaterial ''2024-02-01T09:00:00Z'' ''QR_003_HASH_GHI789'' ''RH'' ''Sala RH'',
      DeleteMaterial ''2'']
   \<and> allDerivable (run
     [AddMaterial 1700000000000 1700000000001 ''K3J9QZ'' ''2023-11-14T22:13:20.000Z''
        \<lparr>nome = ''Notebook'', bmp = ''BMP010'', setor = ''TI'', sala = ''Sala Servidores'',
         responsavel = ''Ana'', status = nao_conferido, ultimaConferencia = None\<rparr>,
      UpdateMaterial ''3'' (emptyUpdates\<lparr>upd_sala := Some ''Arquivo''\<rparr>),
      ConferirMaterial ''2024-02-01T09:00:00Z'' ''QR_003_HASH_GHI789'' ''RH'' ''Sala RH'',
      DeleteMaterial ''2''] initialState)"
proof -
  let ?ops = "[AddMaterial 1700000000000 1700000000001 ''K3J9QZ'' ''2023-11-14T22:13:20.000Z''
        \<lparr>nome = ''Notebook'', bmp = ''BMP010'', setor = ''TI'', sala = ''Sala Servidores'',
         responsavel = ''Ana'', status = nao_conferido, ultimaConferencia = None\<rparr>,
      UpdateMaterial ''3'' (emptyUpdates\<lparr>upd_sala := Some ''Arquivo''\<rparr>),
      ConferirMaterial ''2024-02-01T09:00:00Z'' ''QR_003_HASH_GHI789'' ''RH'' ''Sala RH'',
      DeleteMaterial ''2'']"
  have h: "list_all keepsConference ?ops"
    by (simp add: emptyUpdates_def)
  show ?thesis
    using h derivable_reachable [OF h] by simp
qed

section \<open>Login\<close>

lemma authInvariant_step:
  assumes "authInvariant state"
  shows "authInvariant (applyAuth action state)"
  using assms by (cases action) (auto simp add: authInvariant_def login_def logout_def adminUser_def split: if_splits)

lemma authInvariant_runAuth:
  assumes "authInvariant state"
  shows "authInvariant (runAuth actions state)"
  using assms unfolding runAuth_def
  by (induction actions arbitrary: state) (simp_all add: authInvariant_step)

lemma authInvariant_initial: "authInvariant initialAuth"
  by (simp add: authInvariant_def initialAuth_def)

text \<open>
  C10. \<open>login\<close> returns \<open>true\<close> exactly when the login is \<open>admin\<close> and the password is
  \<open>123456\<close>. In that case the state after it holds the administrator as user and is
  authenticated; otherwise the state is the one before. In every state reached from the
  initial one by logins and logouts, an authenticated state holds a user of \<open>tipo\<close>
  \<open>admin\<close>.
\<close>

theorem login_admin_only:
  "(fst (login credentials state)
      \<longleftrightarrow> cred_login credentials = ''admin'' \<and> senha credentials = ''123456'')
   \<and> (fst (login credentials state) \<longrightarrow>
        snd (login credentials state) = state\<lparr>user := Some adminUser, isAuthenticated := True\<rparr>)
   \<and> (\<not> fst (login credentials state) \<longrightarrow> snd (login credentials state) = state)
   \<and> (isAuthenticated (runAuth actions initialAuth) \<longrightarrow>
        map_option tipo (user (runAuth actions initialAuth)) = Some admin)"
proof -
  have "authInvariant (runAuth actions initialAuth)"
    using authInvariant_initial by (rule authInvariant_runAuth)
  then have "isAuthenticated (runAuth actions initialAuth) \<longrightarrow>
        map_option tipo (user (runAuth actions initialAuth)) = Some admin"
    by (simp add: authInvariant_def split: if_splits)
  then show ?thesis
    by (simp add: login_def)
qed

theorem login_admin_only_witness:
  "fst (login \<lparr>cred_login = ''admin'', senha = ''123456''\<rparr> initialAuth)
   \<and> snd (login \<lparr>cred_login = ''admin'', senha = ''123456''\<rparr> initialAuth)
       = \<lparr>user = Some adminUser, isAuthenticated = True\<rparr>
   \<and> \<not> fst (login \<lparr>cred_login = ''operador'', senha = ''123456''\<rparr> initialAuth)
   \<and> snd (login \<lparr>cred_login = ''operador'', senha = ''123456''\<rparr> initialAuth) = initialAuth
   \<and> isAuthenticated (runAuth [Login \<lparr>cred_login = ''operador'', senha = ''x''\<rparr>,
        Login \<lparr>cred_login = ''admin'', senha = ''123456''\<rparr>] initialAuth)
   \<and> map_option tipo (user (runAuth [Login \<lparr>cred_login = ''operador'', senha = ''x''\<rparr>,
        Login \<lparr>cred_login = ''admin'', senha = ''123456''\<rparr>] initialAuth)) = Some admin"
proof -
  have a: "isAuthenticated (runAuth [Login \<lparr>cred_login = ''operador'', senha = ''x''\<rparr>,
        Login \<lparr>cred_login = ''admin'', senha = ''123456''\<rparr>] initialAuth)"
    by (simp add: runAuth_def login_def)
  show ?thesis
    using a
      login_admin_only [of "\<lparr>cred_login = ''admin'', senha = ''123456''\<rparr>" initialAuth
        "[Login \<lparr>cred_login = ''operador'', senha = ''x''\<rparr>,
          Login \<lparr>cred_login = ''admin'', senha = ''123456''\<rparr>]"]
      login_admin_only [of "\<lparr>cred_login = ''operador'', senha = ''123456''\<rparr>" initialAuth "[]"]
    by (simp add: initialAuth_def)
qed

end
